theory Spec2Isabelle
  imports Complex_Main "HOL-Library.Word"
begin

section \<open>The colour picker and the room scene of elghaly-vr\<close>

text \<open>
  The repository holds five versions of one React component, \<open>MobileColorPicker\<close>, with its
  helpers \<open>CameraManager\<close> and \<open>Scene\<close>. They are told apart by a suffix:
  \<^item> \<open>V1\<close>: src/app/page.tsx, lines 1 to 199;
  \<^item> \<open>V2\<close>: src/app/page.tsx, lines 200 to 429;
  \<^item> \<open>V3\<close>: src/unnamed/part_000, lines 1 to 210;
  \<^item> \<open>V4\<close>: src/unnamed/part_000, lines 211 to 460;
  \<^item> \<open>V5\<close>: src/unnamed/part_001.

  The finite numbers of JavaScript are modelled as \<^typ>\<open>real\<close>: the rounding of IEEE
  doubles is outside the model. Bytes of an image buffer are \<^typ>\<open>8 word\<close>. Objects that the code shares by reference (materials) live in
  an explicit store, a list indexed by address.
\<close>

subsection \<open>Numbers, strings and the template of the hex colour\<close>

text \<open>
  A number of JavaScript is a real or a non-finite value (NaN or an infinity), here
  \<open>None\<close>. A division by zero is not finite, and neither is the product or the
  difference of a finite and a non-finite value.
\<close>

type_synonym number = "real option"

definition js_div :: "real \<Rightarrow> real \<Rightarrow> number" where
  "js_div a b = (if b = 0 then None else Some (a / b))"

definition js_times :: "real \<Rightarrow> number \<Rightarrow> number" where
  "js_times a b = map_option (\<lambda>r. a * r) b"


datatype js_error = TypeError | IndexSizeError

text \<open>
  The conversion of a number to the Web IDL type \<open>[EnforceRange] long\<close>, which the canvas
  applies to the arguments of \<open>getImageData\<close>: a non-finite value throws a TypeError;
  otherwise the integer part (towards zero) is taken, and it throws a TypeError when
  that is not a 32-bit signed integer.
\<close>

definition IntegerPart :: "real \<Rightarrow> int" where
  "IntegerPart x = (if x < 0 then - \<lfloor>- x\<rfloor> else \<lfloor>x\<rfloor>)"

definition to_long :: "number \<Rightarrow> js_error + int" where
  "to_long x =
     (case x of
        None \<Rightarrow> Inl TypeError
      | Some r \<Rightarrow>
          let n = IntegerPart r
          in if n < - (2 ^ 31) \<or> 2 ^ 31 - 1 < n then Inl TypeError else Inr n)"


text \<open>\<open>Number.prototype.toString(16)\<close> on a natural number: lower-case digits, no padding.\<close>

definition hexdigit :: "nat \<Rightarrow> char" where
  "hexdigit d = ''0123456789abcdef'' ! d"

function toString16 :: "nat \<Rightarrow> string" where
  "toString16 n =
     (if n < 16 then [hexdigit n] else toString16 (n div 16) @ [hexdigit (n mod 16)])"
  by pat_completeness auto
termination
  by (relation "measure id") auto

declare toString16.simps [simp del]

text \<open>
  The template
  \<^verbatim>\<open>`#${((1 << 24) + (r << 16) + (g << 8) + b).toString(16).slice(1)}`\<close>.
  Every caller passes channel values of at most 255, where the 32-bit shifts of JavaScript
  do not wrap; the arithmetic is written on \<^typ>\<open>nat\<close>.
\<close>

definition hexOfRGB :: "nat \<Rightarrow> nat \<Rightarrow> nat \<Rightarrow> string" where
  "hexOfRGB r g b = CHR ''#'' # drop 1 (toString16 (2 ^ 24 + r * 2 ^ 16 + g * 2 ^ 8 + b))"

subsection \<open>The video element and the canvas\<close>

type_synonym rgba = "8 word \<times> 8 word \<times> 8 word \<times> 8 word"

record domrect =
  rect_left :: real
  rect_top :: real
  rect_width :: real
  rect_height :: real

text \<open>
  The video element as \<open>pickColor\<close> sees it: \<open>readyState\<close>, the native size, the rectangle
  of \<open>getBoundingClientRect()\<close> and the current decoded frame (column, then row).
\<close>

record video =
  readyState :: nat
  videoWidth :: nat
  videoHeight :: nat
  rect :: domrect
  frame :: "nat \<Rightarrow> nat \<Rightarrow> rgba"

record canvas =
  cwidth :: nat
  cheight :: nat
  bitmap :: "nat \<Rightarrow> nat \<Rightarrow> rgba"

text \<open>
  \<^verbatim>\<open>canvas.width = video.videoWidth; canvas.height = video.videoHeight;
  ctx.drawImage(video, 0, 0, canvas.width, canvas.height)\<close>:
  the canvas takes the native size of the video and every pixel of the frame.
\<close>

definition drawImage :: "video \<Rightarrow> canvas" where
  "drawImage v = \<lparr>cwidth = videoWidth v, cheight = videoHeight v, bitmap = frame v\<rparr>"

text \<open>
  \<open>getImageData(sx, sy, sw, sh)\<close> of the canvas API: \<open>sx\<close> and \<open>sy\<close> are converted to
  \<open>long\<close>; a width or height of zero throws an IndexSizeError; the result is the flat
  RGBA array of the \<open>sw \<times> sh\<close> window, row by row; a position of the window outside the
  canvas yields transparent black and the bitmap is not read there.
\<close>

definition canvas_pixel :: "canvas \<Rightarrow> int \<Rightarrow> int \<Rightarrow> rgba" where
  "canvas_pixel c x y =
     (if 0 \<le> x \<and> x < int (cwidth c) \<and> 0 \<le> y \<and> y < int (cheight c)
      then bitmap c (nat x) (nat y) else (0, 0, 0, 0))"

definition window_pixels :: "canvas \<Rightarrow> int \<Rightarrow> int \<Rightarrow> nat \<Rightarrow> nat \<Rightarrow> rgba list" where
  "window_pixels c x0 y0 sw sh =
     concat (map (\<lambda>j. map (\<lambda>i. canvas_pixel c (x0 + int i) (y0 + int j)) [0..<sw]) [0..<sh])"

definition bytes :: "rgba \<Rightarrow> 8 word list" where
  "bytes p = (case p of (r, g, b, a) \<Rightarrow> [r, g, b, a])"

definition getImageData ::
  "canvas \<Rightarrow> number \<Rightarrow> number \<Rightarrow> nat \<Rightarrow> nat \<Rightarrow> js_error + 8 word list" where
  "getImageData c sx sy sw sh =
     (case to_long sx of
        Inl err \<Rightarrow> Inl err
      | Inr x0 \<Rightarrow>
          (case to_long sy of
             Inl err \<Rightarrow> Inl err
           | Inr y0 \<Rightarrow>
               if sw = 0 \<or> sh = 0 then Inl IndexSizeError
               else Inr (concat (map bytes (window_pixels c x0 y0 sw sh)))))"




subsection \<open>The event and the application state\<close>

text \<open>
  An event carries \<open>touches\<close> (absent on a mouse event) and its own \<open>clientX\<close>, \<open>clientY\<close>.
  \<^verbatim>\<open>e.touches ? e.touches[0].clientX : e.clientX\<close> reads the first touch whenever
  \<open>touches\<close> is there; on an empty list \<open>e.touches[0]\<close> is undefined and the property
  access throws a TypeError.
\<close>

record event =
  touches :: "(real \<times> real) list option"
  clientX :: real
  clientY :: real

definition client_point :: "event \<Rightarrow> js_error + real \<times> real" where
  "client_point e =
     (case touches e of
        None \<Rightarrow> Inr (clientX e, clientY e)
      | Some [] \<Rightarrow> Inl TypeError
      | Some (t # ts) \<Rightarrow> Inr t)"

datatype mode = camera | vr

text \<open>The three \<open>useState\<close> cells of \<open>MobileColorPicker\<close> (V1, lines 98 to 100).\<close>

record app =
  color :: string
  mode :: mode
  isCaptured :: bool

definition initial :: app where
  "initial = \<lparr>color = ''#ffffff'', mode = camera, isCaptured = False\<rparr>"

text \<open>
  What \<open>pickColor\<close> finds behind its refs: \<open>webcamRef.current\<close> (absent while the webcam is
  not mounted) with its \<open>video\<close> (possibly null), whether \<open>canvasRef.current\<close> is there, and
  whether \<open>getContext("2d")\<close> returns a context.
\<close>

record env =
  webcamRef_current :: "video option option"
  canvasRef_current :: bool
  getContext_2d :: bool

text \<open>Lines 110 and 111 of V1 (121 and 122 of V5): the scale transform, not rounded.\<close>

definition pickColor_xy :: "video \<Rightarrow> real \<times> real \<Rightarrow> number \<times> number" where
  "pickColor_xy v p =
     (case p of (cx, cy) \<Rightarrow>
        (js_times (cx - rect_left (rect v)) (js_div (real (videoWidth v)) (rect_width (rect v))),
         js_times (cy - rect_top (rect v)) (js_div (real (videoHeight v)) (rect_height (rect v)))))"

text \<open>
  \<open>pickColor\<close> of V1 (src/app/page.tsx, lines 102 to 125). The result is the error thrown,
  if any, and the state cells as the setters called up to there leave them.
\<close>

definition pickColor_V1 :: "env \<Rightarrow> event \<Rightarrow> app \<Rightarrow> js_error option \<times> app" where
  "pickColor_V1 env e s =
     (case webcamRef_current env of
        None \<Rightarrow> (None, s)
      | Some vid \<Rightarrow>
          if \<not> canvasRef_current env then (None, s)
          else (case vid of
                  None \<Rightarrow> (None, s)
                | Some v \<Rightarrow>
                    if readyState v \<noteq> 4 then (None, s)
                    else (case client_point e of
                            Inl err \<Rightarrow> (Some err, s)
                          | Inr p \<Rightarrow>
                              let (x, y) = pickColor_xy v p
                              in if \<not> getContext_2d env then (None, s)
                                 else (case getImageData (drawImage v) x y 1 1 of
                                         Inl err \<Rightarrow> (Some err, s)
                                       | Inr pixel \<Rightarrow>
                                           (None,
                                            s\<lparr>color := hexOfRGB (unat (pixel ! 0)) (unat (pixel ! 1))
                                                                (unat (pixel ! 2)),
                                              isCaptured := True\<rparr>)))))"







subsection \<open>The two screens and their buttons\<close>

text \<open>
  The handlers that V1 renders: in camera mode the webcam with \<open>pickColor\<close> on click and
  touch (lines 163 to 169) and, only when \<open>isCaptured\<close> holds, the button that sets
  the mode to \<open>vr\<close> (lines 187 to 194); in vr mode the button that sets the mode to
  \<open>camera\<close> (lines 130 to 135). After a handler, also one that throws, the state cells
  are as its setters left them.
\<close>

datatype action = Tap env event | ViewVR | Back

fun enabled :: "action \<Rightarrow> app \<Rightarrow> bool" where
  "enabled (Tap env e) s = (mode s = camera)"
| "enabled ViewVR s = (mode s = camera \<and> isCaptured s)"
| "enabled Back s = (mode s = vr)"

fun fire :: "action \<Rightarrow> app \<Rightarrow> app" where
  "fire (Tap env e) s = snd (pickColor_V1 env e s)"
| "fire ViewVR s = s\<lparr>mode := vr\<rparr>"
| "fire Back s = s\<lparr>mode := camera\<rparr>"

text \<open>A run of user actions; an action whose handler is not on the screen cannot happen.\<close>

fun run :: "action list \<Rightarrow> app \<Rightarrow> app option" where
  "run [] s = Some s"
| "run (a # as) s = (if enabled a s then run as (fire a s) else None)"

text \<open>
  A tap takes a sample when \<open>pickColor\<close> passes all its guards, \<open>getImageData\<close> returns,
  and \<open>setColor\<close> and \<open>setIsCaptured\<close> are reached.
\<close>

definition sampled :: "env \<Rightarrow> event \<Rightarrow> bool" where
  "sampled env e =
     (case webcamRef_current env of
        Some (Some v) \<Rightarrow>
          canvasRef_current env \<and> readyState v = 4 \<and> getContext_2d env
          \<and> (case client_point e of
                Inl err \<Rightarrow> False
              | Inr p \<Rightarrow>
                  (case getImageData (drawImage v) (fst (pickColor_xy v p)) (snd (pickColor_xy v p)) 1 1 of
                     Inl err \<Rightarrow> False
                   | Inr pixel \<Rightarrow> True))
      | _ \<Rightarrow> False)"

fun sampling :: "action \<Rightarrow> bool" where
  "sampling (Tap env e) = sampled env e"
| "sampling ViewVR = False"
| "sampling Back = False"

subsection \<open>The room model, its materials and the colour of three.js\<close>

text \<open>
  A colour of three.js is a triple of channels. \<open>Color.set\<close> with a style string
  \<open>#rrggbb\<close> stores each byte divided by 255; the application only ever holds
  \<open>#ffffff\<close> or a result of the hex template, and on any other string the model leaves
  the colour as it is. \<open>new THREE.Color(s)\<close> starts from white.
  \<open>convertSRGBToLinear\<close> applies the sRGB transfer function of three.js to each channel.
\<close>

type_synonym color3 = "real \<times> real \<times> real"

definition hexval :: "char \<Rightarrow> nat option" where
  "hexval c =
     map_of (zip ''0123456789abcdefABCDEF''
               [0, 1, 2, 3, 4, 5, 6, 7, 8, 9, 10, 11, 12, 13, 14, 15, 10, 11, 12, 13, 14, 15]) c"

definition parse_hex :: "string \<Rightarrow> (nat \<times> nat \<times> nat) option" where
  "parse_hex s =
     (case s of
        [h, r1, r0, g1, g0, b1, b0] \<Rightarrow>
          (if h = CHR ''#'' then
             (case (hexval r1, hexval r0, hexval g1, hexval g0, hexval b1, hexval b0) of
                (Some a, Some b, Some c, Some d, Some e, Some f) \<Rightarrow>
                  Some (16 * a + b, 16 * c + d, 16 * e + f)
              | _ \<Rightarrow> None)
           else None)
      | _ \<Rightarrow> None)"

definition Color_set :: "color3 \<Rightarrow> string \<Rightarrow> color3" where
  "Color_set c style =
     (case parse_hex style of
        Some (r, g, b) \<Rightarrow> (real r / 255, real g / 255, real b / 255)
      | None \<Rightarrow> c)"

definition Color_new :: "string \<Rightarrow> color3" where
  "Color_new style = Color_set (1, 1, 1) style"

definition SRGBToLinear :: "real \<Rightarrow> real" where
  "SRGBToLinear c =
     (if c < 0.04045 then c * 0.0773993808
      else (c * 0.9478672986 + 0.0521327014) powr 2.4)"

definition convertSRGBToLinear :: "color3 \<Rightarrow> color3" where
  "convertSRGBToLinear c =
     (case c of (r, g, b) \<Rightarrow> (SRGBToLinear r, SRGBToLinear g, SRGBToLinear b))"

text \<open>
  A \<open>MeshStandardMaterial\<close>, with the properties the code reads or writes. Assigning
  \<open>needsUpdate = true\<close> is a setter of three.js that increments \<open>version\<close>. Materials
  are shared by reference: they live in a store, a list indexed by address, and a mesh
  holds the address of its material.
\<close>

record std_material =
  mat_name :: string
  mat_color :: color3
  mat_map :: "nat option"
  roughness :: real
  metalness :: real
  envMapIntensity :: real
  version :: nat

record mesh =
  name :: string
  position_y :: real
  material :: nat

datatype object3d = Mesh mesh | Object3D string


definition toLowerCase :: "string \<Rightarrow> string" where
  "toLowerCase s =
     map (\<lambda>c. case map_of (zip ''ABCDEFGHIJKLMNOPQRSTUVWXYZ'' ''abcdefghijklmnopqrstuvwxyz'') c of
                 Some l \<Rightarrow> l
               | None \<Rightarrow> c) s"

fun startsWith :: "string \<Rightarrow> string \<Rightarrow> bool" where
  "startsWith s [] = True"
| "startsWith [] (c # cs) = False"
| "startsWith (a # as) (c # cs) = (a = c \<and> startsWith as cs)"

fun includes_str :: "string \<Rightarrow> string \<Rightarrow> bool" where
  "includes_str [] sub = (sub = [])"
| "includes_str (a # as) sub = (startsWith (a # as) sub \<or> includes_str as sub)"

subsubsection \<open>V1: the scan of the walls and the colour effect\<close>





text \<open>
  The material address of the mesh at a position of the scene; the walls of the memo are
  always positions of meshes.
\<close>

definition material_at :: "object3d list \<Rightarrow> nat \<Rightarrow> nat option" where
  "material_at objs i =
     (if i < length objs then (case objs ! i of Mesh obj \<Rightarrow> Some (material obj) | Object3D n \<Rightarrow> None)
      else None)"

text \<open>
  The colour effect of lines 79 to 83:
  \<^verbatim>\<open>walls.forEach((mesh) => { mesh.material.color.set(wallColor); })\<close>.
\<close>

definition setColor_V1 :: "string \<Rightarrow> std_material \<Rightarrow> std_material" where
  "setColor_V1 wallColor mat = mat\<lparr>mat_color := Color_set (mat_color mat) wallColor\<rparr>"

fun forEach_material ::
  "(std_material \<Rightarrow> std_material) \<Rightarrow> object3d list \<Rightarrow> nat list \<Rightarrow> std_material list
     \<Rightarrow> std_material list" where
  "forEach_material f objs [] store = store"
| "forEach_material f objs (i # list) store =
     (case material_at objs i of
        None \<Rightarrow> forEach_material f objs list store
      | Some a \<Rightarrow> forEach_material f objs list (store[a := f (store ! a)]))"

definition colorEffect_V1 ::
  "object3d list \<Rightarrow> nat list \<Rightarrow> string \<Rightarrow> std_material list \<Rightarrow> std_material list" where
  "colorEffect_V1 objs walls wallColor store = forEach_material (setColor_V1 wallColor) objs walls store"

subsubsection \<open>V5: the colour effect with the conversion\<close>

text \<open>
  Lines 77 to 88 of src/unnamed/part_001: the colour object is built once from the hex
  string; each wall material copies it, converts its own colour to linear and is marked
  for update.
\<close>

definition setColor_V5 :: "color3 \<Rightarrow> std_material \<Rightarrow> std_material" where
  "setColor_V5 colorObj mat =
     mat\<lparr>mat_color := convertSRGBToLinear colorObj, version := Suc (version mat)\<rparr>"

definition colorEffect_V5 ::
  "object3d list \<Rightarrow> nat list \<Rightarrow> string \<Rightarrow> std_material list \<Rightarrow> std_material list" where
  "colorEffect_V5 objs walls wallColor store =
     (let colorObj = Color_new wallColor
      in forEach_material (setColor_V5 colorObj) objs walls store)"

subsubsection \<open>V4: one wall material for all walls\<close>


text \<open>The test of lines 270 to 282: only the name decides.\<close>

definition isWall_V4 :: "mesh \<Rightarrow> bool" where
  "isWall_V4 obj =
     (let name = toLowerCase (name obj);
          isFloor = (includes_str name ''floor'' \<or> includes_str name ''ground'');
          isFurniture = (includes_str name ''sofa'' \<or> includes_str name ''couch''
                         \<or> includes_str name ''plant'' \<or> includes_str name ''lamp''
                         \<or> includes_str name ''shelf'' \<or> includes_str name ''cushion''
                         \<or> includes_str name ''frame'');
          isCeiling = (includes_str name ''ceiling'' \<or> includes_str name ''roof'')
      in \<not> isFloor \<and> \<not> isFurniture \<and> \<not> isCeiling)"

text \<open>The effect of lines 266 to 287: every wall is given the one wall material.\<close>

fun traverse_V4 :: "nat \<Rightarrow> object3d list \<Rightarrow> object3d list" where
  "traverse_V4 wallMaterial [] = []"
| "traverse_V4 wallMaterial (Object3D n # rest) = Object3D n # traverse_V4 wallMaterial rest"
| "traverse_V4 wallMaterial (Mesh obj # rest) =
     (if isWall_V4 obj then Mesh (obj\<lparr>material := wallMaterial\<rparr>) # traverse_V4 wallMaterial rest
      else Mesh obj # traverse_V4 wallMaterial rest)"





subsection \<open>The camera\<close>






subsection \<open>Concrete inputs\<close>

text \<open>
  A ready video of 1920 by 1080 pixels shown in a rectangle of 390 by 844 at the origin,
  every pixel of its frame being (10, 20, 30); the same video before its first frame; a
  mouse click.
\<close>

definition demo_video :: video where
  "demo_video =
     \<lparr>readyState = 4, videoWidth = 1920, videoHeight = 1080,
      rect = \<lparr>rect_left = 0, rect_top = 0, rect_width = 390, rect_height = 844\<rparr>,
      frame = (\<lambda>x y. (10, 20, 30, 255))\<rparr>"

definition demo_env :: env where
  "demo_env =
     \<lparr>webcamRef_current = Some (Some demo_video), canvasRef_current = True,
      getContext_2d = True\<rparr>"

definition loading_env :: env where
  "loading_env =
     \<lparr>webcamRef_current = Some (Some (demo_video\<lparr>readyState := 1\<rparr>)),
      canvasRef_current = True, getContext_2d = True\<rparr>"

definition click :: "real \<Rightarrow> real \<Rightarrow> event" where
  "click x y = \<lparr>touches = None, clientX = x, clientY = y\<rparr>"










section \<open>Theorems\<close>

subsection \<open>The handlers keep the invariant of the modes\<close>

lemma pickColor_V1_isCaptured:
  "isCaptured s \<Longrightarrow> isCaptured (snd (pickColor_V1 env e s))"
  by (auto simp: pickColor_V1_def Let_def split: option.splits if_splits sum.splits prod.splits)

lemma pickColor_V1_mode:
  "mode (snd (pickColor_V1 env e s)) = mode s"
  by (auto simp: pickColor_V1_def Let_def split: option.splits if_splits sum.splits prod.splits)

lemma fire_keeps_isCaptured: "isCaptured s \<Longrightarrow> isCaptured (fire a s)"
  by (cases a) (simp_all add: pickColor_V1_isCaptured)

lemma fire_invariant:
  "enabled a s \<Longrightarrow> (mode s = vr \<longrightarrow> isCaptured s) \<Longrightarrow> mode (fire a s) = vr \<longrightarrow> isCaptured (fire a s)"
  by (cases a) (simp_all add: pickColor_V1_mode)

lemma run_invariant:
  "run as s = Some s' \<Longrightarrow> (mode s = vr \<longrightarrow> isCaptured s) \<Longrightarrow> mode s' = vr \<longrightarrow> isCaptured s'"
proof (induction as arbitrary: s)
  case Nil
  then show ?case by simp
next
  case (Cons a as)
  from Cons.prems(1) have en: "enabled a s" and rest: "run as (fire a s) = Some s'"
    by (auto split: if_splits)
  from fire_invariant [OF en Cons.prems(2)] Cons.IH [OF rest] show ?case by blast
qed

subsection \<open>Evaluation on concrete inputs\<close>

lemma toString16_small: "n < 16 \<Longrightarrow> toString16 n = [hexdigit n]"
  by (simp add: toString16.simps)

lemma toString16_big:
  "16 \<le> n \<Longrightarrow> toString16 n = toString16 (n div 16) @ [hexdigit (n mod 16)]"
  by (subst toString16.simps) simp

lemma hexOfRGB_10_20_30: "hexOfRGB 10 20 30 = ''#0a141e''"
  by (simp add: hexOfRGB_def toString16_small toString16_big hexdigit_def)


lemma pickColor_V1_demo:
  "pickColor_V1 demo_env (click 195 422) initial =
     (None, \<lparr>color = ''#0a141e'', mode = camera, isCaptured = True\<rparr>)"
  by (simp add: pickColor_V1_def demo_env_def demo_video_def click_def initial_def
      client_point_def pickColor_xy_def js_times_def js_div_def drawImage_def getImageData_def
      window_pixels_def canvas_pixel_def to_long_def IntegerPart_def bytes_def hexOfRGB_10_20_30)

lemma run_demo:
  "run [Tap demo_env (click 195 422), ViewVR] initial =
     Some \<lparr>color = ''#0a141e'', mode = vr, isCaptured = True\<rparr>"
  by (simp add: pickColor_V1_demo) (simp add: initial_def)

subsection \<open>The scale transform and the pixel read\<close>



















subsection \<open>The window of 5 by 5 pixels\<close>











subsection \<open>The sampler before the first frame\<close>

text \<open>
  C8: when the video is not ready (the webcam is not mounted, its video element is null,
  or \<open>readyState\<close> is not 4), \<open>pickColor\<close> returns normally, throws nothing and leaves
  the colour, the has-captured flag and the mode as they were.
\<close>

theorem pickColor_not_ready:
  "(\<forall>v. webcamRef_current env = Some (Some v) \<longrightarrow> readyState v \<noteq> 4)
     \<Longrightarrow> pickColor_V1 env e s = (None, s)"
  by (auto simp: pickColor_V1_def split: option.splits)

theorem pickColor_not_ready_witness:
  "readyState (demo_video\<lparr>readyState := 1\<rparr>) = 1
   \<and> pickColor_V1 loading_env (click 195 422) initial = (None, initial)"
proof -
  have h: "\<forall>v. webcamRef_current loading_env = Some (Some v) \<longrightarrow> readyState v \<noteq> 4"
    by (simp add: loading_env_def)
  from pickColor_not_ready [OF h] show ?thesis by simp
qed

subsection \<open>The two modes\<close>

lemma mode_cases: "(UNIV :: mode set) = {camera, vr}"
proof -
  have "m \<in> {camera, vr}" for m :: mode by (cases m) simp_all
  then show ?thesis by blast
qed

lemma run_isCaptured:
  "run as s = Some s' \<Longrightarrow> isCaptured s \<Longrightarrow> isCaptured s'"
proof (induction as arbitrary: s)
  case Nil
  then show ?case by simp
next
  case (Cons a as)
  then show ?case by (auto split: if_splits intro: fire_keeps_isCaptured)
qed

lemma pickColor_V1_not_sampled:
  "\<not> sampled env e \<Longrightarrow> snd (pickColor_V1 env e s) = s"
  by (auto simp: pickColor_V1_def sampled_def Let_def
      split: option.splits if_splits sum.splits prod.splits)

lemma fire_not_sampling:
  "\<not> sampling a \<Longrightarrow> isCaptured (fire a s) = isCaptured s"
  by (cases a) (simp_all add: pickColor_V1_not_sampled)

lemma run_needs_sample:
  "run as s = Some s' \<Longrightarrow> \<not> isCaptured s \<Longrightarrow> isCaptured s' \<Longrightarrow> list_ex sampling as"
proof (induction as arbitrary: s)
  case Nil
  then show ?case by simp
next
  case (Cons a as)
  from Cons.prems(1) have rest: "run as (fire a s) = Some s'" by (auto split: if_splits)
  show ?case
  proof (cases "sampling a")
    case True
    then show ?thesis by simp
  next
    case False
    then have "\<not> isCaptured (fire a s)" using Cons.prems(2) by (simp add: fire_not_sampling)
    from Cons.IH [OF rest this Cons.prems(3)] show ?thesis by simp
  qed
qed

lemma sampled_demo: "sampled demo_env (click 195 422)"
  by (simp add: sampled_def demo_env_def demo_video_def click_def client_point_def
      pickColor_xy_def js_times_def js_div_def getImageData_def to_long_def IntegerPart_def)

text \<open>
  C9: the mode has exactly the two values \<open>camera\<close> (capture, the initial one) and \<open>vr\<close>
  (preview); the step from capture to preview is on the screen exactly when the
  has-captured flag is set, the step back exactly when the mode is preview; and after
  every run of user actions from the initial state, preview mode implies that the flag is
  set and that one of the actions of the run was a tap that took a sample.
\<close>

theorem preview_implies_captured:
  "(UNIV :: mode set) = {camera, vr}
   \<and> mode initial = camera
   \<and> (enabled ViewVR s \<longleftrightarrow> mode s = camera \<and> isCaptured s)
   \<and> (enabled Back s \<longleftrightarrow> mode s = vr)
   \<and> (run as initial = Some s' \<longrightarrow> mode s' = vr \<longrightarrow> isCaptured s' \<and> list_ex sampling as)"
proof -
  have i: "mode initial = vr \<longrightarrow> isCaptured initial" "\<not> isCaptured initial"
    by (simp_all add: initial_def)
  have "run as initial = Some s' \<longrightarrow> mode s' = vr \<longrightarrow> isCaptured s' \<and> list_ex sampling as"
    using run_invariant [of as initial s'] run_needs_sample [of as initial s'] i by blast
  then show ?thesis by (simp add: mode_cases initial_def)
qed

theorem preview_implies_captured_witness:
  "run [Tap demo_env (click 195 422), ViewVR] initial =
     Some \<lparr>color = ''#0a141e'', mode = vr, isCaptured = True\<rparr>
   \<and> mode \<lparr>color = ''#0a141e'', mode = vr, isCaptured = True\<rparr> = vr
   \<and> isCaptured \<lparr>color = ''#0a141e'', mode = vr, isCaptured = True\<rparr>
   \<and> list_ex sampling [Tap demo_env (click 195 422), ViewVR]"
  using preview_implies_captured [of initial "[Tap demo_env (click 195 422), ViewVR]"
      "\<lparr>color = ''#0a141e'', mode = vr, isCaptured = True\<rparr>"] run_demo
  by simp

text \<open>
  C10: the two mode buttons write the mode cell only. Going back to capture keeps the
  sampled colour and the has-captured flag, so that entering the preview again shows the
  same colour; and no run of user actions resets the flag once it is set.
\<close>

theorem mode_buttons_change_mode_only:
  "fire ViewVR s = s\<lparr>mode := vr\<rparr>
   \<and> fire Back s = s\<lparr>mode := camera\<rparr>
   \<and> color (fire Back s) = color s
   \<and> isCaptured (fire Back s) = isCaptured s
   \<and> color (fire ViewVR (fire Back s)) = color s
   \<and> isCaptured (fire ViewVR (fire Back s)) = isCaptured s
   \<and> (run as s = Some s' \<longrightarrow> isCaptured s \<longrightarrow> isCaptured s')"
  using run_isCaptured [of as s s'] by simp

theorem mode_buttons_change_mode_only_witness:
  "run [Back, ViewVR] \<lparr>color = ''#0a141e'', mode = vr, isCaptured = True\<rparr> =
     Some \<lparr>color = ''#0a141e'', mode = vr, isCaptured = True\<rparr>
   \<and> isCaptured \<lparr>color = ''#0a141e'', mode = vr, isCaptured = True\<rparr>"
  using mode_buttons_change_mode_only
    [of "\<lparr>color = ''#0a141e'', mode = vr, isCaptured = True\<rparr>" "[Back, ViewVR]"
        "\<lparr>color = ''#0a141e'', mode = vr, isCaptured = True\<rparr>"]
  by simp

subsection \<open>The colour effects\<close>

lemma length_forEach_material [simp]:
  "length (forEach_material f objs list store) = length store"
  by (induction list arbitrary: store) (auto split: option.splits)

lemma forEach_material_map:
  assumes "\<And>m. h (f m) = g (h m)"
  shows "map h (forEach_material f objs list store) = forEach_material g objs list (map h store)"
proof (induction list arbitrary: store)
  case Nil
  then show ?case by simp
next
  case (Cons i list)
  show ?case
  proof (cases "material_at objs i")
    case None
    then show ?thesis using Cons by simp
  next
    case (Some a)
    have "map h (store[a := f (store ! a)]) = (map h store)[a := g (map h store ! a)]"
      by (cases "a < length store") (simp_all add: map_update assms list_update_beyond)
    then show ?thesis using Some Cons by simp
  qed
qed

lemma forEach_material_nth:
  assumes idem: "\<And>m. f (f m) = f m" and a: "a < length store"
  shows "forEach_material f objs list store ! a =
           (if Some a \<in> material_at objs ` set list then f (store ! a) else store ! a)"
  using a
proof (induction list arbitrary: store)
  case Nil
  then show ?case by simp
next
  case (Cons i list)
  show ?case
  proof (cases "material_at objs i")
    case None
    then show ?thesis using Cons by auto
  next
    case (Some b)
    let ?s = "store[b := f (store ! b)]"
    have ih: "forEach_material f objs list ?s ! a =
        (if Some a \<in> material_at objs ` set list then f (?s ! a) else ?s ! a)"
      using Cons by simp
    show ?thesis
    proof (cases "a = b")
      case True
      then have "?s ! a = f (store ! a)" using Cons.prems by simp
      then show ?thesis using Some True ih by (simp add: idem)
    next
      case False
      then have "?s ! a = store ! a" by simp
      then show ?thesis using Some False ih by auto
    qed
  qed
qed

lemma forEach_material_fixed:
  assumes "\<And>m. m \<in> set store \<Longrightarrow> f m = m"
  shows "forEach_material f objs list store = store"
  using assms
proof (induction list arbitrary: store)
  case Nil
  then show ?case by simp
next
  case (Cons i list)
  show ?case
  proof (cases "material_at objs i")
    case None
    then show ?thesis using Cons by simp
  next
    case (Some b)
    have "store[b := f (store ! b)] = store"
      by (cases "b < length store") (simp_all add: Cons.prems list_update_same_conv list_update_beyond)
    then show ?thesis using Some Cons by simp
  qed
qed

lemma forEach_material_idem:
  assumes idem: "\<And>m. f (f m) = f m"
  shows "forEach_material f objs list (forEach_material f objs list store) =
         forEach_material f objs list store"
proof (rule nth_equalityI)
  show "length (forEach_material f objs list (forEach_material f objs list store)) =
        length (forEach_material f objs list store)" by simp
next
  fix a
  assume "a < length (forEach_material f objs list (forEach_material f objs list store))"
  then have a: "a < length store" by simp
  then have a': "a < length (forEach_material f objs list store)" by simp
  show "forEach_material f objs list (forEach_material f objs list store) ! a =
        forEach_material f objs list store ! a"
    by (simp add: forEach_material_nth [OF idem a'] forEach_material_nth [OF idem a] idem)
qed

lemma Color_set_idem: "Color_set (Color_set c style) style = Color_set c style"
  by (simp add: Color_set_def split: option.splits)

lemma setColor_V1_idem: "setColor_V1 c (setColor_V1 c m) = setColor_V1 c m"
  by (simp add: setColor_V1_def Color_set_idem)

lemma colorEffect_V1_idem:
  "colorEffect_V1 objs walls c (colorEffect_V1 objs walls c store) = colorEffect_V1 objs walls c store"
  unfolding colorEffect_V1_def by (rule forEach_material_idem) (rule setColor_V1_idem)

lemma colorEffect_V1_frame:
  "map (\<lambda>m. m\<lparr>mat_color := k\<rparr>) (colorEffect_V1 objs walls c store) =
   map (\<lambda>m. m\<lparr>mat_color := k\<rparr>) store"
proof -
  have "map (\<lambda>m. m\<lparr>mat_color := k\<rparr>) (colorEffect_V1 objs walls c store) =
        forEach_material id objs walls (map (\<lambda>m. m\<lparr>mat_color := k\<rparr>) store)"
    unfolding colorEffect_V1_def
    by (rule forEach_material_map) (simp add: setColor_V1_def)
  also have "\<dots> = map (\<lambda>m. m\<lparr>mat_color := k\<rparr>) store"
    by (rule forEach_material_fixed) simp
  finally show ?thesis .
qed

lemma colorEffect_V5_erase:
  "map (\<lambda>m. m\<lparr>version := 0\<rparr>) (colorEffect_V5 objs walls c store) =
   forEach_material (\<lambda>m. m\<lparr>mat_color := convertSRGBToLinear (Color_new c)\<rparr>) objs walls
     (map (\<lambda>m. m\<lparr>version := 0\<rparr>) store)"
  unfolding colorEffect_V5_def Let_def
  by (rule forEach_material_map) (simp add: setColor_V5_def)

lemma colorEffect_V5_idem:
  "map (\<lambda>m. m\<lparr>version := 0\<rparr>) (colorEffect_V5 objs walls c (colorEffect_V5 objs walls c store)) =
   map (\<lambda>m. m\<lparr>version := 0\<rparr>) (colorEffect_V5 objs walls c store)"
  by (simp add: colorEffect_V5_erase forEach_material_idem)

lemma colorEffect_V5_frame:
  "map (\<lambda>m. m\<lparr>mat_color := k, version := 0\<rparr>) (colorEffect_V5 objs walls c store) =
   map (\<lambda>m. m\<lparr>mat_color := k, version := 0\<rparr>) store"
proof -
  have "map (\<lambda>m. m\<lparr>mat_color := k, version := 0\<rparr>) (colorEffect_V5 objs walls c store) =
        forEach_material id objs walls (map (\<lambda>m. m\<lparr>mat_color := k, version := 0\<rparr>) store)"
    unfolding colorEffect_V5_def Let_def
    by (rule forEach_material_map) (simp add: setColor_V5_def)
  also have "\<dots> = map (\<lambda>m. m\<lparr>mat_color := k, version := 0\<rparr>) store"
    by (rule forEach_material_fixed) simp
  finally show ?thesis .
qed

text \<open>
  C7: for every colour string and every list of walls, running the colour effect of V1
  twice leaves exactly the store that running it once leaves, and the effect changes
  nothing but the colour of materials. The same holds for the effect of V5 up to the
  version counter that \<open>needsUpdate = true\<close> increments: the colours, and every other
  property, are the same after two runs as after one. The effects receive the objects
  and the list of walls as arguments and return only the store of materials: positions,
  names, material addresses and the list of walls are not written.
\<close>

theorem colorEffect_idempotent:
  "colorEffect_V1 objs walls c (colorEffect_V1 objs walls c store) = colorEffect_V1 objs walls c store
   \<and> map (\<lambda>m. m\<lparr>mat_color := k\<rparr>) (colorEffect_V1 objs walls c store) =
       map (\<lambda>m. m\<lparr>mat_color := k\<rparr>) store
   \<and> map (\<lambda>m. m\<lparr>version := 0\<rparr>)
         (colorEffect_V5 objs walls c (colorEffect_V5 objs walls c store)) =
       map (\<lambda>m. m\<lparr>version := 0\<rparr>) (colorEffect_V5 objs walls c store)
   \<and> map mat_color (colorEffect_V5 objs walls c (colorEffect_V5 objs walls c store)) =
       map mat_color (colorEffect_V5 objs walls c store)
   \<and> map (\<lambda>m. m\<lparr>mat_color := k, version := 0\<rparr>) (colorEffect_V5 objs walls c store) =
       map (\<lambda>m. m\<lparr>mat_color := k, version := 0\<rparr>) store"
proof -
  have "map mat_color (map (\<lambda>m. m\<lparr>version := 0\<rparr>)
          (colorEffect_V5 objs walls c (colorEffect_V5 objs walls c store))) =
        map mat_color (map (\<lambda>m. m\<lparr>version := 0\<rparr>) (colorEffect_V5 objs walls c store))"
    by (simp only: colorEffect_V5_idem)
  then have "map mat_color (colorEffect_V5 objs walls c (colorEffect_V5 objs walls c store)) =
       map mat_color (colorEffect_V5 objs walls c store)"
    by (simp add: comp_def)
  then show ?thesis
    using colorEffect_V1_idem colorEffect_V1_frame colorEffect_V5_idem colorEffect_V5_frame by blast
qed

subsection \<open>The scan of the walls\<close>












lemma length_traverse_V4 [simp]: "length (traverse_V4 wm objs) = length objs"
proof (induction objs)
  case Nil
  then show ?case by simp
next
  case (Cons obj objs)
  then show ?case by (cases obj) simp_all
qed





subsection \<open>The room of four meshes\<close>





subsection \<open>The stored colour\<close>


subsection \<open>The camera\<close>




end
